theory Spec2Isabelle
  imports Complex_Main
begin

section \<open>The fire-data pipeline of main.py\<close>

text \<open>
  The script is a straight line of four stages (fetch the fire feed, fetch the country
  boundaries, join them spatially, publish the result) under one \<^verbatim>\<open>try / except Exception\<close>.
  Every stage is a few calls into pandas, geopandas, shapely, requests and the ArcGIS API.
  The embedding keeps the script's functions and constants under their own names. What the
  outside world answers (the two downloads, the parser, the portal) is a parameter, the
  record \<open>env\<close>; what the data-frame calls compute (\<^verbatim>\<open>isin\<close>, \<^verbatim>\<open>sjoin\<close>, \<^verbatim>\<open>drop\<close>,
  \<^verbatim>\<open>raise_for_status\<close>) is written out after the libraries' documented behaviour
  (geopandas 0.10 to 0.14 on pandas 2, requests 2). Every exception is a value.
\<close>

subsection \<open>Values, geometries and frames\<close>

text \<open>
  A float64 cell is a finite number or NaN; the script does no arithmetic on the numbers it
  reads, it only passes them on, so a finite float is taken as the real number it denotes.
\<close>

datatype float = Fin real | NaN

datatype cell = Num float | Str string

text \<open>\<^verbatim>\<open>shapely.geometry.Point(x, y)\<close>.\<close>

datatype point = Point float float

text \<open>
  A boundary geometry (polygon, multi-polygon or any other shape) by the two point sets that
  the DE-9IM predicates of shapely look at: its interior and its boundary.
\<close>

record region =
  interior :: "(real \<times> real) set"
  boundary :: "(real \<times> real) set"

text \<open>
  A (Geo)DataFrame: the labels of the attribute columns, the rows, and the coordinate
  reference system. A row has its index label, one cell per attribute column (in the order of
  \<open>columns\<close>) and the value of the active geometry column, which is kept apart from the
  attribute columns and is never listed in \<open>columns\<close>. A plain DataFrame is a frame whose
  geometry is \<open>()\<close>.
\<close>

record 'g row =
  idx :: nat
  cells :: "cell list"
  geom :: 'g

record 'g gdf =
  columns :: "string list"
  rows :: "'g row list"
  crs :: "string option"

text \<open>
  Frames that come out of \<^verbatim>\<open>read_csv\<close> and \<^verbatim>\<open>read_file\<close> are rectangular, and their
  column labels and their index labels are unique.
\<close>

definition wf_frame :: "'g gdf \<Rightarrow> bool" where
  "wf_frame df \<longleftrightarrow>
     distinct (columns df) \<and> distinct (map idx (rows df)) \<and>
     list_all (\<lambda>r. length (cells r) = length (columns df)) (rows df)"

text \<open>The cell of row \<open>r\<close> under the column labelled \<open>c\<close>, if the frame has that column.\<close>

definition cell_of :: "string list \<Rightarrow> 'g row \<Rightarrow> string \<Rightarrow> cell option" where
  "cell_of cols r c = map_of (zip cols (cells r)) c"

subsection \<open>Exceptions\<close>

text \<open>
  The exceptions the modelled calls raise themselves, any other \<^verbatim>\<open>Exception\<close> a library
  call may raise (class name and message), and the exceptions that derive from
  \<^verbatim>\<open>BaseException\<close> only (\<^verbatim>\<open>KeyboardInterrupt\<close>, \<^verbatim>\<open>SystemExit\<close>), which
  \<^verbatim>\<open>except Exception\<close> does not catch.
\<close>

datatype exn =
    HTTPError string
  | KeyError string
  | ValueError string
  | TypeError string
  | MergeError string
  | LibraryError string string
  | NonException string

fun is_Exception :: "exn \<Rightarrow> bool" where
  "is_Exception (NonException _) = False"
| "is_Exception _ = True"

text \<open>\<^verbatim>\<open>str(e)\<close>, as the f-string of the handler formats it.\<close>

fun str_exn :: "exn \<Rightarrow> string" where
  "str_exn (HTTPError m) = m"
| "str_exn (KeyError k) = [CHR 0x27] @ k @ [CHR 0x27]"
| "str_exn (ValueError m) = m"
| "str_exn (TypeError m) = m"
| "str_exn (MergeError m) = m"
| "str_exn (LibraryError c m) = m"
| "str_exn (NonException m) = m"

subsection \<open>The outside world and the trace of a run\<close>

text \<open>
  What \<^verbatim>\<open>requests.get\<close> returns: the status code, the reason phrase, the final URL and
  the body (\<^verbatim>\<open>response.text\<close>).
\<close>

record response =
  status_code :: nat
  reason :: string
  url :: string
  body_text :: string

record item =
  item_id :: string
  title :: string
  item_type :: string

text \<open>
  What a run does that can be seen from outside, in order: the lines it prints to standard
  output and the calls it makes to the network and the portal. \<open>'s\<close> is the spatially
  enabled data frame that \<^verbatim>\<open>GeoAccessor.from_geodataframe\<close> builds.
\<close>

datatype 's event =
    Print string
  | ReadCsv string
  | HttpGet string
  | GisConnect string string string
  | ContentSearch string string
  | Overwrite item 's
  | ToFeatureLayer string 's

text \<open>The answers of the outside world, one field per external call of the script.\<close>

record 's env =
  read_csv :: "string \<Rightarrow> exn + unit gdf"
  requests_get :: "string \<Rightarrow> exn + response"
  read_file :: "string \<Rightarrow> exn + region gdf"
  GIS :: "string \<Rightarrow> string \<Rightarrow> string \<Rightarrow> exn + unit"
  from_geodataframe :: "point gdf \<Rightarrow> exn + 's"
  content_search :: "string \<Rightarrow> string \<Rightarrow> exn + item list"
  fromitem :: "item \<Rightarrow> exn + unit"
  manager_overwrite :: "item \<Rightarrow> 's \<Rightarrow> exn + unit"
  to_featurelayer :: "string \<Rightarrow> 's \<Rightarrow> exn + unit"

text \<open>
  A computation returns the trace it produced and either the exception it raised or its
  value. Sequencing stops at the first exception, as Python does.
\<close>

type_synonym ('s, 'a) io = "'s event list \<times> (exn + 'a)"

definition io_return :: "'a \<Rightarrow> ('s, 'a) io" where
  "io_return x = ([], Inr x)"

definition io_bind :: "('s, 'a) io \<Rightarrow> ('a \<Rightarrow> ('s, 'b) io) \<Rightarrow> ('s, 'b) io" where
  "io_bind m f =
     (case m of
        (t, Inl e) \<Rightarrow> (t, Inl e)
      | (t, Inr x) \<Rightarrow> (case f x of (t', r) \<Rightarrow> (t @ t', r)))"

definition print :: "string \<Rightarrow> ('s, unit) io" where
  "print s = ([Print s], Inr ())"

text \<open>An external call: it is recorded, then the world answers.\<close>

definition call :: "'s event \<Rightarrow> exn + 'a \<Rightarrow> ('s, 'a) io" where
  "call ev answer = ([ev], answer)"

text \<open>A library computation that touches nothing outside but may raise.\<close>

definition lift :: "exn + 'a \<Rightarrow> ('s, 'a) io" where
  "lift r = ([], r)"

subsection \<open>Constants of the script\<close>

definition FIRE_DATA_URL :: string where
  "FIRE_DATA_URL =
     ''https://firms.modaps.eosdis.nasa.gov/data/active_fire/modis-c6.1/csv/MODIS_C6_1_South_America_7d.csv''"

definition COUNTRIES_URL :: string where
  "COUNTRIES_URL = ''https://hub.arcgis.com/datasets/esri::world-countries-generalized.geojson''"

definition COUNTRIES_TO_KEEP :: "string list" where
  "COUNTRIES_TO_KEEP = [''Brazil'', ''Peru'', ''Bolivia'']"

definition PORTAL_URL :: string where
  "PORTAL_URL = ''https://daniele.maps.arcgis.com/home/content.html''"

definition USERNAME :: string where
  "USERNAME = ''''"

definition PASSWORD :: string where
  "PASSWORD = ''''"

definition ITEM_TITLE :: string where
  "ITEM_TITLE = ''Filtered Fire Data - Brazil, Peru, Bolivia''"

subsection \<open>fetch_fire_data\<close>

text \<open>\<^verbatim>\<open>row["c"]\<close> on a row of the frame: \<^verbatim>\<open>KeyError\<close> when there is no such column.\<close>

definition row_get :: "string list \<Rightarrow> 'g row \<Rightarrow> string \<Rightarrow> exn + cell" where
  "row_get cols r c = (case cell_of cols r c of None \<Rightarrow> Inl (KeyError c) | Some v \<Rightarrow> Inr v)"

text \<open>The constructor \<^verbatim>\<open>Point(x, y)\<close> takes numbers; a string is refused.\<close>

fun Point_of :: "cell \<Rightarrow> cell \<Rightarrow> exn + point" where
  "Point_of (Num x) (Num y) = Inr (Point x y)"
| "Point_of _ _ = Inl (TypeError ''must be real number, not str'')"

text \<open>
  The lambda of line 30, \<^verbatim>\<open>Point(row["longitude"], row["latitude"])\<close>; the arguments are
  evaluated left to right.
\<close>

definition row_point :: "string list \<Rightarrow> 'g row \<Rightarrow> exn + point" where
  "row_point cols r =
     (case row_get cols r ''longitude'' of
        Inl e \<Rightarrow> Inl e
      | Inr x \<Rightarrow> (case row_get cols r ''latitude'' of
                   Inl e \<Rightarrow> Inl e
                 | Inr y \<Rightarrow> Point_of x y))"

text \<open>
  \<^verbatim>\<open>df.apply(f, axis=1)\<close>: the function is applied to the rows in order, and the first
  exception ends the call. On a frame without rows it is applied to no row of the feed.
\<close>

fun apply_rows :: "('g row \<Rightarrow> exn + 'a) \<Rightarrow> 'g row list \<Rightarrow> exn + 'a list" where
  "apply_rows f [] = Inr []"
| "apply_rows f (r # rs) =
     (case f r of
        Inl e \<Rightarrow> Inl e
      | Inr v \<Rightarrow> (case apply_rows f rs of Inl e \<Rightarrow> Inl e | Inr vs \<Rightarrow> Inr (v # vs)))"

text \<open>The cells of a row without those under the labels \<open>names\<close>.\<close>

definition cells_without :: "string list \<Rightarrow> string list \<Rightarrow> cell list \<Rightarrow> cell list" where
  "cells_without names cols cs = map snd (filter (\<lambda>cv. fst cv \<notin> set names) (zip cols cs))"

text \<open>
  Lines 30 and 32 together: \<^verbatim>\<open>fire_df["geometry"] = ...\<close> followed by
  \<^verbatim>\<open>gpd.GeoDataFrame(fire_df, geometry="geometry", crs="EPSG:4326")\<close>. The new column
  replaces a column of the feed that was already called \<^verbatim>\<open>geometry\<close> and becomes the
  active geometry.
\<close>

definition GeoDataFrame :: "unit gdf \<Rightarrow> 'g list \<Rightarrow> string \<Rightarrow> 'g gdf" where
  "GeoDataFrame df geometry c =
     \<lparr>columns = filter (\<lambda>n. n \<noteq> ''geometry'') (columns df),
      rows = map (\<lambda>rg. \<lparr>idx = idx (fst rg),
                         cells = cells_without [''geometry''] (columns df) (cells (fst rg)),
                         geom = snd rg\<rparr>)
                 (zip (rows df) geometry),
      crs = Some c\<rparr>"

definition fetch_fire_data :: "'s env \<Rightarrow> ('s, point gdf) io" where
  "fetch_fire_data env =
     io_bind (print ''Fetching fire data...'') (\<lambda>_.
     io_bind (call (ReadCsv FIRE_DATA_URL) (read_csv env FIRE_DATA_URL)) (\<lambda>fire_df.
     io_bind (lift (apply_rows (row_point (columns fire_df)) (rows fire_df))) (\<lambda>geometry.
     io_return (GeoDataFrame fire_df geometry ''EPSG:4326''))))"

subsection \<open>fetch_country_boundaries\<close>

text \<open>Decimal notation of a natural number, as an f-string writes it.\<close>

fun str_nat :: "nat \<Rightarrow> string" where
  "str_nat n =
     (if n < 10 then [char_of (48 + n)] else str_nat (n div 10) @ [char_of (48 + n mod 10)])"

declare str_nat.simps [simp del]

text \<open>
  \<^verbatim>\<open>Response.raise_for_status()\<close> of requests: an \<^verbatim>\<open>HTTPError\<close> for a status from 400
  to 499 (client error) and from 500 to 599 (server error), nothing for any other status.
\<close>

definition raise_for_status :: "response \<Rightarrow> exn + unit" where
  "raise_for_status r =
     (if 400 \<le> status_code r \<and> status_code r < 500 then
        Inl (HTTPError (str_nat (status_code r) @ '' Client Error: '' @ reason r
                        @ '' for url: '' @ url r))
      else if 500 \<le> status_code r \<and> status_code r < 600 then
        Inl (HTTPError (str_nat (status_code r) @ '' Server Error: '' @ reason r
                        @ '' for url: '' @ url r))
      else Inr ())"

text \<open>\<^verbatim>\<open>df["c"]\<close>: the column as a series, \<^verbatim>\<open>KeyError\<close> when the frame has no such column.\<close>

definition column_get :: "'g gdf \<Rightarrow> string \<Rightarrow> exn + cell option list" where
  "column_get df c =
     (if c \<in> set (columns df) then Inr (map (\<lambda>r. cell_of (columns df) r c) (rows df))
      else Inl (KeyError c))"

text \<open>
  One element of \<^verbatim>\<open>Series.isin(values)\<close> for a list of strings: equality with one of
  them, character by character; a number or a missing cell is in no such list.
\<close>

fun isin :: "cell option \<Rightarrow> string list \<Rightarrow> bool" where
  "isin (Some (Str s)) names = (s \<in> set names)"
| "isin _ names = False"

text \<open>\<^verbatim>\<open>df[mask]\<close> with a boolean series: the rows whose mask is true, labels kept.\<close>

definition select_rows :: "'g gdf \<Rightarrow> bool list \<Rightarrow> 'g gdf" where
  "select_rows df keep = df\<lparr>rows := map fst (filter snd (zip (rows df) keep))\<rparr>"

definition fetch_country_boundaries :: "'s env \<Rightarrow> ('s, region gdf) io" where
  "fetch_country_boundaries env =
     io_bind (print ''Fetching country boundaries...'') (\<lambda>_.
     io_bind (call (HttpGet COUNTRIES_URL) (requests_get env COUNTRIES_URL)) (\<lambda>response.
     io_bind (lift (raise_for_status response)) (\<lambda>_.
     io_bind (lift (read_file env (body_text response))) (\<lambda>world_gdf.
     io_bind (lift (column_get world_gdf ''COUNTRY'')) (\<lambda>country.
     io_return (select_rows world_gdf (map (\<lambda>v. isin v COUNTRIES_TO_KEEP) country)))))))"

subsection \<open>filter_fire_data\<close>

text \<open>
  The binary predicates of shapely for a point against a geometry. A point has no boundary,
  so it is within a geometry exactly when it lies in the geometry's interior, and it
  intersects the geometry when it lies in the interior or on the boundary. A point with a
  NaN coordinate is in no relation with anything.
\<close>

datatype predicate = Within | Intersects

fun holds :: "predicate \<Rightarrow> point \<Rightarrow> region \<Rightarrow> bool" where
  "holds Within (Point (Fin x) (Fin y)) g = ((x, y) \<in> interior g)"
| "holds Intersects (Point (Fin x) (Fin y)) g = ((x, y) \<in> interior g \<union> boundary g)"
| "holds _ _ _ = False"

text \<open>
  The suffixes of \<^verbatim>\<open>DataFrame.merge\<close>: a label that occurs on both sides gets the suffix
  of its side. pandas 2 refuses the merge (\<^verbatim>\<open>MergeError\<close>) when the renaming makes two
  labels of one side equal that were different before.
\<close>

definition rename_overlap :: "string list \<Rightarrow> string \<Rightarrow> string list \<Rightarrow> string list" where
  "rename_overlap to_rename suffix labels =
     map (\<lambda>x. if x \<in> set to_rename then x @ suffix else x) labels"

definition duplicated :: "string list \<Rightarrow> bool list" where
  "duplicated xs = map (\<lambda>i. xs ! i \<in> set (take i xs)) [0..<length xs]"

definition new_dups :: "string list \<Rightarrow> string list \<Rightarrow> string list" where
  "new_dups renamed orig =
     map fst (filter (\<lambda>ld. fst (snd ld) \<and> \<not> snd (snd ld))
                     (zip renamed (zip (duplicated renamed) (duplicated orig))))"

text \<open>
  \<^verbatim>\<open>gpd.sjoin(left_df, right_df, how="inner", predicate=p)\<close> with the default suffixes
  \<^verbatim>\<open>left\<close> and \<^verbatim>\<open>right\<close>. The frames may not use the labels \<^verbatim>\<open>index_left\<close> and
  \<^verbatim>\<open>index_right\<close> (\<^verbatim>\<open>ValueError\<close>), nor the label \<^verbatim>\<open>_key_right\<close> under which the
  join keeps its matches (\<^verbatim>\<open>KeyError\<close>). The result has one row for every pair of a left
  row and a right row that are in the relation: the left row's index label, its cells and
  its geometry, then the right row's index label as the column \<^verbatim>\<open>index_right\<close>, then the
  right row's attribute cells (its geometry is dropped). The order of the rows is that of the
  left frame; no statement below depends on it.
\<close>

definition left_labels :: "string list \<Rightarrow> string list \<Rightarrow> string list" where
  "left_labels lcols rcols = rename_overlap (filter (\<lambda>c. c \<in> set rcols) lcols) ''_left'' lcols"

definition right_labels :: "string list \<Rightarrow> string list \<Rightarrow> string list" where
  "right_labels lcols rcols = rename_overlap (filter (\<lambda>c. c \<in> set rcols) lcols) ''_right'' rcols"

definition sjoin_check :: "string list \<Rightarrow> string list \<Rightarrow> exn option" where
  "sjoin_check lcols rcols =
     (if ''index_left'' \<in> set lcols \<union> set rcols \<or> ''index_right'' \<in> set lcols \<union> set rcols then
        Some (ValueError ''index_left and index_right cannot be names in the frames being joined'')
      else if ''_key_right'' \<in> set lcols then Some (KeyError ''_key_right'')
      else if new_dups (''index_left'' # left_labels lcols rcols) (''index_left'' # lcols)
              @ new_dups (''index_right'' # right_labels lcols rcols) (''index_right'' # rcols) \<noteq> [] then
        Some (MergeError ''Passing suffixes which cause duplicate columns is not allowed.'')
      else if ''_key_right'' \<in> set rcols then Some (KeyError ''_key_right'')
      else None)"

definition joined_row :: "point row \<Rightarrow> region row \<Rightarrow> point row" where
  "joined_row l r =
     \<lparr>idx = idx l, cells = cells l @ [Num (Fin (real (idx r)))] @ cells r, geom = geom l\<rparr>"

definition sjoin :: "point gdf \<Rightarrow> region gdf \<Rightarrow> predicate \<Rightarrow> exn + point gdf" where
  "sjoin left_df right_df p =
     (case sjoin_check (columns left_df) (columns right_df) of
        Some e \<Rightarrow> Inl e
      | None \<Rightarrow>
          Inr \<lparr>columns = left_labels (columns left_df) (columns right_df) @ [''index_right'']
                         @ right_labels (columns left_df) (columns right_df),
               rows = concat (map (\<lambda>l. map (joined_row l)
                                             (filter (\<lambda>r. holds p (geom l) (geom r)) (rows right_df)))
                                  (rows left_df)),
               crs = crs left_df\<rparr>)"

text \<open>
  \<^verbatim>\<open>df.drop(columns=names)\<close>: every column under one of the labels goes; a label the frame
  does not have is a \<^verbatim>\<open>KeyError\<close>.
\<close>

definition drop_columns :: "'g gdf \<Rightarrow> string list \<Rightarrow> exn + 'g gdf" where
  "drop_columns df names =
     (if \<exists>n \<in> set names. n \<notin> set (columns df) then
        Inl (KeyError (concat names @ '' not found in axis''))
      else
        Inr (df\<lparr>columns := filter (\<lambda>c. c \<notin> set names) (columns df),
                rows := map (\<lambda>r. r\<lparr>cells := cells_without names (columns df) (cells r)\<rparr>) (rows df)\<rparr>))"

definition filter_fire_data :: "point gdf \<Rightarrow> region gdf \<Rightarrow> ('s, point gdf) io" where
  "filter_fire_data fire_gdf countries_gdf =
     io_bind (print ''Filtering fire data...'') (\<lambda>_.
     io_bind (lift (sjoin fire_gdf countries_gdf Within)) (\<lambda>filtered_gdf.
     lift (drop_columns filtered_gdf [''index_right''])))"

subsection \<open>publish_to_arcgis\<close>

text \<open>
  The value of \<^verbatim>\<open>overwrite\<close> (a dictionary with a success flag) and of
  \<^verbatim>\<open>to_featurelayer\<close> (the new item) are not looked at by the script; only whether the
  call raises matters.
\<close>

definition publish_to_arcgis :: "'s env \<Rightarrow> point gdf \<Rightarrow> ('s, unit) io" where
  "publish_to_arcgis env filtered_gdf =
     io_bind (print ''Publishing to ArcGIS Online...'') (\<lambda>_.
     io_bind (call (GisConnect PORTAL_URL USERNAME PASSWORD)
                   (GIS env PORTAL_URL USERNAME PASSWORD)) (\<lambda>gis.
     io_bind (lift (from_geodataframe env filtered_gdf)) (\<lambda>sdf.
     io_bind (call (ContentSearch ITEM_TITLE ''Feature Layer'')
                   (content_search env ITEM_TITLE ''Feature Layer'')) (\<lambda>existing_items.
     io_bind (case existing_items of
                item # _ \<Rightarrow>
                  io_bind (print ''Updating existing layer...'') (\<lambda>_.
                  io_bind (lift (fromitem env item)) (\<lambda>flc.
                  call (Overwrite item sdf) (manager_overwrite env item sdf)))
              | [] \<Rightarrow>
                  io_bind (print ''Creating a new feature layer...'') (\<lambda>_.
                  call (ToFeatureLayer ITEM_TITLE sdf) (to_featurelayer env ITEM_TITLE sdf))) (\<lambda>_.
     print ''Publishing complete!'')))))"

subsection \<open>The main block\<close>

text \<open>The body of the \<^verbatim>\<open>try\<close>, lines 80 to 87.\<close>

definition try_body :: "'s env \<Rightarrow> ('s, unit) io" where
  "try_body env =
     io_bind (fetch_fire_data env) (\<lambda>fire_gdf.
     io_bind (fetch_country_boundaries env) (\<lambda>countries_gdf.
     io_bind (filter_fire_data fire_gdf countries_gdf) (\<lambda>filtered_gdf.
     io_bind (print (''Filtered '' @ str_nat (length (rows filtered_gdf)) @ '' fire records.'')) (\<lambda>_.
     io_bind (publish_to_arcgis env filtered_gdf) (\<lambda>_.
     print ''Process completed successfully!'')))))"

text \<open>
  \<^verbatim>\<open>try: body except Exception as e: handler(e)\<close>: an exception that is an
  \<^verbatim>\<open>Exception\<close> goes to the handler, any other passes through.
\<close>

definition try_except_Exception :: "('s, 'a) io \<Rightarrow> (exn \<Rightarrow> ('s, 'a) io) \<Rightarrow> ('s, 'a) io" where
  "try_except_Exception body handler =
     (case body of
        (t, Inl e) \<Rightarrow>
          (if is_Exception e then (case handler e of (t', r) \<Rightarrow> (t @ t', r)) else (t, Inl e))
      | (t, Inr x) \<Rightarrow> (t, Inr x))"

definition main :: "'s env \<Rightarrow> ('s, unit) io" where
  "main env = try_except_Exception (try_body env) (\<lambda>e. print (''Error: '' @ str_exn e))"

text \<open>
  What the operating system sees of a run of the script: the lines on standard output, the
  lines on standard error, and the exit status. The interpreter writes the traceback of an
  exception that nothing caught to standard error and exits with status 1; otherwise it
  exits with status 0.
\<close>

record process =
  stdout :: "string list"
  stderr :: "string list"
  exit_code :: nat

fun printed :: "'s event list \<Rightarrow> string list" where
  "printed [] = []"
| "printed (Print s # t) = s # printed t"
| "printed (_ # t) = printed t"

definition run_script :: "('s, unit) io \<Rightarrow> process" where
  "run_script m =
     (case m of
        (t, Inl e) \<Rightarrow>
          \<lparr>stdout = printed t, stderr = [''Traceback (most recent call last): '' @ str_exn e],
           exit_code = 1\<rparr>
      | (t, Inr _) \<Rightarrow> \<lparr>stdout = printed t, stderr = [], exit_code = 0\<rparr>)"

text \<open>The calls of a trace that change the portal, and the calls that leave the process.\<close>

fun is_mutation :: "'s event \<Rightarrow> bool" where
  "is_mutation (Overwrite _ _) = True"
| "is_mutation (ToFeatureLayer _ _) = True"
| "is_mutation _ = False"

definition mutations :: "'s event list \<Rightarrow> 's event list" where
  "mutations t = filter is_mutation t"

fun is_external :: "'s event \<Rightarrow> bool" where
  "is_external (Print _) = False"
| "is_external _ = True"

definition external_calls :: "'s event list \<Rightarrow> 's event list" where
  "external_calls t = filter is_external t"

fun is_portal_call :: "'s event \<Rightarrow> bool" where
  "is_portal_call (GisConnect _ _ _) = True"
| "is_portal_call (ContentSearch _ _) = True"
| "is_portal_call (Overwrite _ _) = True"
| "is_portal_call (ToFeatureLayer _ _) = True"
| "is_portal_call _ = False"

definition portal_calls :: "'s event list \<Rightarrow> 's event list" where
  "portal_calls t = filter is_portal_call t"



definition column_labels :: "exn + 'g gdf \<Rightarrow> exn + string list" where
  "column_labels r = (case r of Inl e \<Rightarrow> Inl e | Inr df \<Rightarrow> Inr (columns df))"

subsection \<open>Positions of a fire point against the three countries\<close>





subsection \<open>Example data\<close>

text \<open>
  \<^verbatim>\<open>shapely.geometry.box(minx, miny, maxx, maxy)\<close>: the open rectangle is the interior, its
  four sides are the boundary.
\<close>

definition box :: "real \<Rightarrow> real \<Rightarrow> real \<Rightarrow> real \<Rightarrow> region" where
  "box minx miny maxx maxy =
     \<lparr>interior = {p. minx < fst p \<and> fst p < maxx \<and> miny < snd p \<and> snd p < maxy},
      boundary = {p. minx \<le> fst p \<and> fst p \<le> maxx \<and> miny \<le> snd p \<and> snd p \<le> maxy
                     \<and> \<not> (minx < fst p \<and> fst p < maxx \<and> miny < snd p \<and> snd p < maxy)}\<rparr>"

text \<open>
  Three rectangles in longitude and latitude that stand for the three countries. Peru and
  Bolivia meet along the meridian of 70 degrees west, Bolivia and Brazil along that of 60.
\<close>

definition ex_brazil :: region where
  "ex_brazil = box (-60) (-30) (-35) 5"

definition ex_peru :: region where
  "ex_peru = box (-81) (-18) (-70) 0"

definition ex_bolivia :: region where
  "ex_bolivia = box (-70) (-23) (-60) (-10)"

definition country_row :: "nat \<Rightarrow> string \<Rightarrow> string \<Rightarrow> region \<Rightarrow> region row" where
  "country_row i name code g =
     \<lparr>idx = i, cells = [Num (Fin (real i)), Str name, Str code], geom = g\<rparr>"

text \<open>A world layer of six features, two of them with a name that differs by case or by a
  trailing blank.\<close>

definition ex_world :: "region gdf" where
  "ex_world =
     \<lparr>columns = [''FID'', ''COUNTRY'', ''ISO''],
      rows = [country_row 0 ''Argentina'' ''AR'' (box (-73) (-55) (-54) (-22)),
              country_row 1 ''Bolivia'' ''BO'' ex_bolivia,
              country_row 2 ''Brazil'' ''BR'' ex_brazil,
              country_row 3 ''brazil'' ''BR'' ex_brazil,
              country_row 4 ''Peru'' ''PE'' ex_peru,
              country_row 5 ''Peru '' ''PE'' ex_peru],
      crs = Some ''EPSG:4326''\<rparr>"

definition ex_countries :: "region gdf" where
  "ex_countries =
     \<lparr>columns = [''FID'', ''COUNTRY'', ''ISO''],
      rows = [country_row 1 ''Bolivia'' ''BO'' ex_bolivia,
              country_row 2 ''Brazil'' ''BR'' ex_brazil,
              country_row 4 ''Peru'' ''PE'' ex_peru],
      crs = Some ''EPSG:4326''\<rparr>"

text \<open>A fire feed of three detections: one in Brazil, one in Peru, one in Europe.\<close>

definition feed_row :: "nat \<Rightarrow> real \<Rightarrow> real \<Rightarrow> real \<Rightarrow> unit row" where
  "feed_row i lat lon b = \<lparr>idx = i, cells = [Num (Fin lat), Num (Fin lon), Num (Fin b)], geom = ()\<rparr>"

definition ex_fire_df :: "unit gdf" where
  "ex_fire_df =
     \<lparr>columns = [''latitude'', ''longitude'', ''brightness''],
      rows = [feed_row 0 (-10) (-50) 310, feed_row 1 (-15) (-75) 305, feed_row 2 40 2 300],
      crs = None\<rparr>"

definition fire_row :: "nat \<Rightarrow> real \<Rightarrow> real \<Rightarrow> real \<Rightarrow> point row" where
  "fire_row i lat lon b =
     \<lparr>idx = i, cells = [Num (Fin lat), Num (Fin lon), Num (Fin b)], geom = Point (Fin lon) (Fin lat)\<rparr>"

definition ex_fire_gdf :: "point gdf" where
  "ex_fire_gdf =
     \<lparr>columns = [''latitude'', ''longitude'', ''brightness''],
      rows = [fire_row 0 (-10) (-50) 310, fire_row 1 (-15) (-75) 305, fire_row 2 40 2 300],
      crs = Some ''EPSG:4326''\<rparr>"

text \<open>
  A world in which every call succeeds and the portal holds no layer yet. The spatially
  enabled frame is taken to be the frame itself.
\<close>

definition ex_env :: "point gdf env" where
  "ex_env =
     \<lparr>read_csv = (\<lambda>u. Inr ex_fire_df),
      requests_get = (\<lambda>u. Inr \<lparr>status_code = 200, reason = ''OK'', url = u, body_text = ''{}''\<rparr>),
      read_file = (\<lambda>t. Inr ex_world),
      GIS = (\<lambda>u n p. Inr ()),
      from_geodataframe = (\<lambda>df. Inr df),
      content_search = (\<lambda>q t. Inr []),
      fromitem = (\<lambda>i. Inr ()),
      manager_overwrite = (\<lambda>i s. Inr ()),
      to_featurelayer = (\<lambda>t s. Inr ())\<rparr>"









text \<open>A boundary download that is answered with status 300 and a body that parses.\<close>

definition c6_env :: "point gdf env" where
  "c6_env = ex_env\<lparr>requests_get :=
     (\<lambda>u. Inr \<lparr>status_code = 300, reason = ''Multiple Choices'', url = u, body_text = ''{}''\<rparr>)\<rparr>"

text \<open>A boundary download that is answered with status 500.\<close>

definition e500_env :: "point gdf env" where
  "e500_env = ex_env\<lparr>requests_get :=
     (\<lambda>u. Inr \<lparr>status_code = 500, reason = ''Internal Server Error'', url = u, body_text = []\<rparr>)\<rparr>"



text \<open>A fire feed that has a column \<^verbatim>\<open>FID\<close>, as the boundary layer has.\<close>

definition c8_fire :: "point gdf" where
  "c8_fire =
     \<lparr>columns = [''FID'', ''latitude'', ''longitude''],
      rows = [\<lparr>idx = 0, cells = [Num (Fin 9001), Num (Fin (-10)), Num (Fin (-50))],
               geom = Point (Fin (-50)) (Fin (-10))\<rparr>],
      crs = Some ''EPSG:4326''\<rparr>"

section \<open>Properties\<close>

subsection \<open>Sequencing\<close>

lemma snd_io_bind:
  "snd (io_bind m f) = (case snd m of Inl e \<Rightarrow> Inl e | Inr x \<Rightarrow> snd (f x))"
  by (cases m) (auto simp: io_bind_def split: sum.splits prod.splits)

lemma fst_io_bind:
  "fst (io_bind m f) = (case snd m of Inl e \<Rightarrow> fst m | Inr x \<Rightarrow> fst m @ fst (f x))"
  by (cases m) (auto simp: io_bind_def split: sum.splits prod.splits)

lemma io_basic [simp]:
  "snd (print s) = Inr ()" "snd (call ev a) = a" "snd (lift a) = a" "snd (io_return x) = Inr x"
  "fst (print s) = [Print s]" "fst (call ev a) = [ev]" "fst (lift a) = []" "fst (io_return x) = []"
  by (simp_all add: print_def call_def lift_def io_return_def)

subsection \<open>The fire feed\<close>




lemma snd_fetch_fire_data:
  "snd (fetch_fire_data env) =
     (case read_csv env FIRE_DATA_URL of
        Inl e \<Rightarrow> Inl e
      | Inr fire_df \<Rightarrow>
          (case apply_rows (row_point (columns fire_df)) (rows fire_df) of
             Inl e \<Rightarrow> Inl e
           | Inr geometry \<Rightarrow> Inr (GeoDataFrame fire_df geometry ''EPSG:4326'')))"
  by (simp add: fetch_fire_data_def snd_io_bind split: sum.splits)

subsection \<open>Labels of the join\<close>

lemma suffix_left_neq: "c @ ''_left'' \<noteq> ''index_right''"
proof
  assume "c @ ''_left'' = ''index_right''"
  then have "rev (c @ ''_left'') = rev ''index_right''" by simp
  then show False by simp
qed

lemma suffix_right_eq: "c @ ''_right'' = ''index_right'' \<longleftrightarrow> c = ''index''"
proof
  assume "c @ ''_right'' = ''index_right''"
  then have "c @ ''_right'' = ''index'' @ ''_right''" by simp
  then show "c = ''index''" by (simp only: append_same_eq)
qed simp

lemma new_dups_nonempty:
  assumes "i < length renamed" "i < length orig"
    "renamed ! i \<in> set (take i renamed)" "orig ! i \<notin> set (take i orig)"
  shows "new_dups renamed orig \<noteq> []"
proof -
  let ?z = "zip renamed (zip (duplicated renamed) (duplicated orig))"
  have len: "i < length ?z" using assms by (simp add: duplicated_def)
  have "?z ! i = (renamed ! i, True, False)"
    using assms by (simp add: duplicated_def)
  then have "(renamed ! i, True, False) \<in> set ?z" using len by (metis nth_mem)
  then have "filter (\<lambda>ld. fst (snd ld) \<and> \<not> snd (snd ld)) ?z \<noteq> []"
    unfolding filter_empty_conv by force
  then show ?thesis by (simp add: new_dups_def)
qed

lemma first_occurrence:
  assumes "x \<in> set xs"
  obtains j where "j < length xs" "xs ! j = x" "x \<notin> set (take j xs)"
proof -
  obtain ys zs where "xs = ys @ x # zs" "x \<notin> set ys"
    using assms by (meson split_list_first)
  then have "length ys < length xs" "xs ! length ys = x" "x \<notin> set (take (length ys) xs)"
    by simp_all
  then show ?thesis by (rule that)
qed

lemma sjoin_check_NoneD:
  assumes "sjoin_check lcols rcols = None"
  shows "''index_left'' \<notin> set lcols" "''index_right'' \<notin> set lcols"
    "''index_left'' \<notin> set rcols" "''index_right'' \<notin> set rcols"
    "''_key_right'' \<notin> set lcols" "''_key_right'' \<notin> set rcols"
    "new_dups (''index_left'' # left_labels lcols rcols) (''index_left'' # lcols) = []"
    "new_dups (''index_right'' # right_labels lcols rcols) (''index_right'' # rcols) = []"
proof -
  let ?A = "''index_left'' \<in> set lcols \<union> set rcols \<or> ''index_right'' \<in> set lcols \<union> set rcols"
  let ?B = "''_key_right'' \<in> set lcols"
  let ?C = "new_dups (''index_left'' # left_labels lcols rcols) (''index_left'' # lcols)
            @ new_dups (''index_right'' # right_labels lcols rcols) (''index_right'' # rcols) \<noteq> []"
  let ?D = "''_key_right'' \<in> set rcols"
  have "\<not> ?A \<and> \<not> ?B \<and> \<not> ?C \<and> \<not> ?D"
    using assms unfolding sjoin_check_def
    by (metis option.distinct(1))
  then have a: "\<not> ?A" and b: "\<not> ?B" and c: "\<not> ?C" and d: "\<not> ?D" by blast+
  show "''index_left'' \<notin> set lcols" "''index_right'' \<notin> set lcols"
    "''index_left'' \<notin> set rcols" "''index_right'' \<notin> set rcols"
    using a by blast+
  show "''_key_right'' \<notin> set lcols" "''_key_right'' \<notin> set rcols" using b d by blast+
  show "new_dups (''index_left'' # left_labels lcols rcols) (''index_left'' # lcols) = []"
    "new_dups (''index_right'' # right_labels lcols rcols) (''index_right'' # rcols) = []"
    using c by (simp_all only: append_is_Nil_conv not_not)
qed

lemma left_labels_nth:
  assumes "k < length lcols"
  shows "left_labels lcols rcols ! k =
           (if lcols ! k \<in> set rcols then lcols ! k @ ''_left'' else lcols ! k)"
  using assms by (simp add: left_labels_def rename_overlap_def)

lemma right_labels_nth:
  assumes "k < length rcols"
  shows "right_labels lcols rcols ! k =
           (if rcols ! k \<in> set lcols then rcols ! k @ ''_right'' else rcols ! k)"
  using assms by (auto simp add: right_labels_def rename_overlap_def)

lemma length_labels [simp]:
  "length (left_labels lcols rcols) = length lcols"
  "length (right_labels lcols rcols) = length rcols"
  by (simp_all add: left_labels_def right_labels_def rename_overlap_def)

lemma sjoin_check_left_labels:
  assumes "sjoin_check lcols rcols = None"
  shows "''index_right'' \<notin> set (left_labels lcols rcols)"
proof
  assume "''index_right'' \<in> set (left_labels lcols rcols)"
  then obtain k where k: "k < length lcols" "left_labels lcols rcols ! k = ''index_right''"
    by (metis in_set_conv_nth length_labels(1))
  show False
  proof (cases "lcols ! k \<in> set rcols")
    case True
    with k have "lcols ! k @ ''_left'' = ''index_right''" by (simp add: left_labels_nth)
    then show False using suffix_left_neq by blast
  next
    case False
    with k have "lcols ! k = ''index_right''" by (simp add: left_labels_nth)
    then have "''index_right'' \<in> set lcols" using k(1) by (metis nth_mem)
    then show False using sjoin_check_NoneD(2) [OF assms] by blast
  qed
qed

lemma sjoin_check_right_labels:
  assumes "sjoin_check lcols rcols = None"
  shows "''index_right'' \<notin> set (right_labels lcols rcols)"
proof
  assume "''index_right'' \<in> set (right_labels lcols rcols)"
  then obtain k where k: "k < length rcols" "right_labels lcols rcols ! k = ''index_right''"
    by (metis in_set_conv_nth length_labels(2))
  have mem_r: "rcols ! k \<in> set rcols" using k(1) by simp
  have both: "rcols ! k \<in> set lcols"
  proof (rule ccontr)
    assume "rcols ! k \<notin> set lcols"
    with k have "rcols ! k = ''index_right''" by (simp add: right_labels_nth)
    with mem_r show False using sjoin_check_NoneD(4) [OF assms] by simp
  qed
  with k have "rcols ! k @ ''_right'' = ''index_right''" by (simp add: right_labels_nth)
  then have "rcols ! k = ''index''" by (simp only: suffix_right_eq)
  with both mem_r have il: "''index'' \<in> set lcols" and ir: "''index'' \<in> set rcols" by simp_all
  from il obtain j where j: "j < length lcols" "lcols ! j = ''index''"
    "''index'' \<notin> set (take j lcols)"
    by (rule first_occurrence)
  have "left_labels lcols rcols ! j = ''index_left''"
    using j(1,2) ir by (simp add: left_labels_nth)
  then have 1: "(''index_left'' # left_labels lcols rcols) ! Suc j
                  \<in> set (take (Suc j) (''index_left'' # left_labels lcols rcols))"
    by simp
  have 2: "(''index_left'' # lcols) ! Suc j \<notin> set (take (Suc j) (''index_left'' # lcols))"
    using j by simp
  have 3: "Suc j < length (''index_left'' # left_labels lcols rcols)"
    "Suc j < length (''index_left'' # lcols)"
    using j(1) by simp_all
  from new_dups_nonempty [OF 3 1 2] sjoin_check_NoneD(7) [OF assms]
  show False by blast
qed

subsection \<open>Dropping the index column of the join\<close>

lemma cells_without_append:
  assumes "length cs1 = length cols1"
  shows "cells_without names (cols1 @ cols2) (cs1 @ cs2) =
           cells_without names cols1 cs1 @ cells_without names cols2 cs2"
  using assms by (simp add: cells_without_def)

lemma cells_without_none:
  assumes "\<forall>c \<in> set cols. c \<notin> set names" "length cs = length cols"
  shows "cells_without names cols cs = cs"
proof -
  have "filter (\<lambda>cv. fst cv \<notin> set names) (zip cols cs) = zip cols cs"
    using assms(1) by (auto simp: filter_id_conv dest: set_zip_leftD)
  then show ?thesis using assms(2) by (simp add: cells_without_def)
qed

lemma cells_without_joined:
  assumes "sjoin_check lcols rcols = None"
    "length cl = length lcols" "length cr = length rcols"
  shows "cells_without [''index_right'']
           (left_labels lcols rcols @ [''index_right''] @ right_labels lcols rcols)
           (cl @ [v] @ cr) = cl @ cr"
proof -
  have l: "cells_without [''index_right''] (left_labels lcols rcols) cl = cl"
    using sjoin_check_left_labels [OF assms(1)] assms(2) by (intro cells_without_none) auto
  have r: "cells_without [''index_right''] (right_labels lcols rcols) cr = cr"
    using sjoin_check_right_labels [OF assms(1)] assms(3) by (intro cells_without_none) auto
  have m: "cells_without [''index_right''] (''index_right'' # right_labels lcols rcols) (v # cr) = cr"
    using r by (simp add: cells_without_def)
  show ?thesis
    using l m assms(2)
    by (simp add: cells_without_append [where ?cols1.0 = "left_labels lcols rcols"])
qed

lemma filter_index_right:
  assumes "sjoin_check lcols rcols = None"
  shows "filter (\<lambda>c. c \<notin> set [''index_right''])
           (left_labels lcols rcols @ [''index_right''] @ right_labels lcols rcols)
         = left_labels lcols rcols @ right_labels lcols rcols"
proof -
  have "filter (\<lambda>c. c \<noteq> ''index_right'') (left_labels lcols rcols) = left_labels lcols rcols"
    using sjoin_check_left_labels [OF assms] by (simp only: filter_id_conv) blast
  moreover have "filter (\<lambda>c. c \<noteq> ''index_right'') (right_labels lcols rcols) = right_labels lcols rcols"
    using sjoin_check_right_labels [OF assms] by (simp only: filter_id_conv) blast
  ultimately show ?thesis by simp
qed

text \<open>What the spatial filter returns, with the trace left out.\<close>

lemma snd_filter_fire_data:
  "snd (filter_fire_data fire countries) =
     (case sjoin_check (columns fire) (columns countries) of
        Some e \<Rightarrow> Inl e
      | None \<Rightarrow>
          Inr \<lparr>columns = left_labels (columns fire) (columns countries)
                         @ right_labels (columns fire) (columns countries),
               rows = concat (map (\<lambda>l. map (\<lambda>r. \<lparr>idx = idx l,
                    cells = cells_without [''index_right'']
                              (left_labels (columns fire) (columns countries) @ [''index_right'']
                               @ right_labels (columns fire) (columns countries))
                              (cells l @ [Num (Fin (real (idx r)))] @ cells r),
                    geom = geom l\<rparr>)
                  (filter (\<lambda>r. holds Within (geom l) (geom r)) (rows countries))) (rows fire)),
               crs = crs fire\<rparr>)"
proof (cases "sjoin_check (columns fire) (columns countries)")
  case (Some e)
  then show ?thesis by (simp add: filter_fire_data_def snd_io_bind sjoin_def)
next
  case None
  note f = filter_index_right [OF None]
  show ?thesis
    using None f
    by (simp add: filter_fire_data_def snd_io_bind sjoin_def drop_columns_def
        map_concat joined_row_def comp_def)
qed

subsection \<open>The geometry of a fire record\<close>


lemma ex_env_simps:
  "read_csv ex_env u = Inr ex_fire_df"
  "requests_get ex_env u = Inr \<lparr>status_code = 200, reason = ''OK'', url = u, body_text = ''{}''\<rparr>"
  "read_file ex_env t = Inr ex_world"
  "GIS ex_env a b c = Inr ()"
  "from_geodataframe ex_env df = Inr df"
  "content_search ex_env q ty = Inr []"
  "fromitem ex_env i = Inr ()"
  "manager_overwrite ex_env i s = Inr ()"
  "to_featurelayer ex_env ti s = Inr ()"
  by (simp_all add: ex_env_def)



subsection \<open>The allow-list of the boundary fetcher\<close>

lemma select_rows_filter: "map fst (filter snd (zip xs (map P xs))) = filter P xs"
  by (induction xs) auto

lemma isin_keep:
  "isin v COUNTRIES_TO_KEEP \<longleftrightarrow>
     v = Some (Str ''Brazil'') \<or> v = Some (Str ''Peru'') \<or> v = Some (Str ''Bolivia'')"
  by (cases "(v, COUNTRIES_TO_KEEP)" rule: isin.cases) (simp_all add: COUNTRIES_TO_KEEP_def)

lemma snd_fetch_country_boundaries:
  "snd (fetch_country_boundaries env) =
     (case requests_get env COUNTRIES_URL of
        Inl e \<Rightarrow> Inl e
      | Inr response \<Rightarrow>
          (case raise_for_status response of
             Inl e \<Rightarrow> Inl e
           | Inr u \<Rightarrow>
               (case read_file env (body_text response) of
                  Inl e \<Rightarrow> Inl e
                | Inr world \<Rightarrow>
                    if ''COUNTRY'' \<in> set (columns world) then
                      Inr (world\<lparr>rows := filter (\<lambda>r. isin (cell_of (columns world) r ''COUNTRY'')
                                                         COUNTRIES_TO_KEEP) (rows world)\<rparr>)
                    else Inl (KeyError ''COUNTRY''))))"
proof -
  have "map fst (filter snd (zip rs (map (\<lambda>v. isin v names) (map f rs)))) = filter (\<lambda>r. isin (f r) names) rs"
    for rs :: "region row list" and f names
    using select_rows_filter [of rs "\<lambda>r. isin (f r) names"] by (simp add: comp_def)
  then show ?thesis
    by (simp add: fetch_country_boundaries_def snd_io_bind column_get_def select_rows_def
        split: sum.splits)
qed

text \<open>
  C4. When \<^verbatim>\<open>fetch_country_boundaries\<close> returns a frame, the frame holds exactly those
  features of the downloaded layer whose \<^verbatim>\<open>COUNTRY\<close> cell is the string Brazil, Peru or
  Bolivia, character by character; so the country name of every retained record is one of
  the three, and a name in another case or with a blank added is not retained.
\<close>

theorem fetch_country_boundaries_allow_list:
  assumes "snd (fetch_country_boundaries env) = Inr countries_gdf"
  shows "(\<exists>response world.
            requests_get env COUNTRIES_URL = Inr response \<and>
            read_file env (body_text response) = Inr world \<and>
            columns countries_gdf = columns world \<and>
            rows countries_gdf =
              filter (\<lambda>r. cell_of (columns world) r ''COUNTRY'' = Some (Str ''Brazil'') \<or>
                          cell_of (columns world) r ''COUNTRY'' = Some (Str ''Peru'') \<or>
                          cell_of (columns world) r ''COUNTRY'' = Some (Str ''Bolivia''))
                     (rows world)) \<and>
         (\<forall>r \<in> set (rows countries_gdf).
            cell_of (columns countries_gdf) r ''COUNTRY'' = Some (Str ''Brazil'') \<or>
            cell_of (columns countries_gdf) r ''COUNTRY'' = Some (Str ''Peru'') \<or>
            cell_of (columns countries_gdf) r ''COUNTRY'' = Some (Str ''Bolivia''))"
proof -
  from assms obtain response world where
    r: "requests_get env COUNTRIES_URL = Inr response"
    and w: "read_file env (body_text response) = Inr world"
    and c: "''COUNTRY'' \<in> set (columns world)"
    and g: "countries_gdf = world\<lparr>rows := filter (\<lambda>r. isin (cell_of (columns world) r ''COUNTRY'')
                                                         COUNTRIES_TO_KEEP) (rows world)\<rparr>"
    unfolding snd_fetch_country_boundaries
    by (auto split: sum.splits if_splits)
  have cols: "columns countries_gdf = columns world" by (simp add: g)
  have rws: "rows countries_gdf =
              filter (\<lambda>r. cell_of (columns world) r ''COUNTRY'' = Some (Str ''Brazil'') \<or>
                          cell_of (columns world) r ''COUNTRY'' = Some (Str ''Peru'') \<or>
                          cell_of (columns world) r ''COUNTRY'' = Some (Str ''Bolivia''))
                     (rows world)"
    by (simp add: g isin_keep)
  have "\<forall>r \<in> set (rows countries_gdf).
            cell_of (columns countries_gdf) r ''COUNTRY'' = Some (Str ''Brazil'') \<or>
            cell_of (columns countries_gdf) r ''COUNTRY'' = Some (Str ''Peru'') \<or>
            cell_of (columns countries_gdf) r ''COUNTRY'' = Some (Str ''Bolivia'')"
    unfolding rws cols by simp
  with r w cols rws show ?thesis by blast
qed

lemma raise_for_status_ok:
  "\<not> (400 \<le> status_code r \<and> status_code r < 600) \<Longrightarrow> raise_for_status r = Inr ()"
  by (auto simp: raise_for_status_def)

lemma snd_fetch_country_boundaries_ex: "snd (fetch_country_boundaries ex_env) = Inr ex_countries"
  by (simp add: snd_fetch_country_boundaries ex_env_simps raise_for_status_ok ex_world_def
      ex_countries_def isin_keep country_row_def cell_of_def)

text \<open>
  Of the six features of the example layer the three countries are retained; Argentina, the
  lower-case \<^verbatim>\<open>brazil\<close> and the \<^verbatim>\<open>Peru\<close> with a trailing blank are not.
\<close>

theorem fetch_country_boundaries_allow_list_witness:
  "snd (fetch_country_boundaries ex_env) = Inr ex_countries \<and>
   map idx (rows ex_world) = [0, 1, 2, 3, 4, 5] \<and>
   map idx (rows ex_countries) = [1, 2, 4] \<and>
   list_all (\<lambda>r.
      cell_of (columns ex_countries) r ''COUNTRY'' = Some (Str ''Brazil'') \<or>
      cell_of (columns ex_countries) r ''COUNTRY'' = Some (Str ''Peru'') \<or>
      cell_of (columns ex_countries) r ''COUNTRY'' = Some (Str ''Bolivia'')) (rows ex_countries)"
proof -
  have i: "map idx (rows ex_world) = [0, 1, 2, 3, 4, 5]" "map idx (rows ex_countries) = [1, 2, 4]"
    by (simp_all add: ex_world_def ex_countries_def country_row_def)
  from fetch_country_boundaries_allow_list [OF snd_fetch_country_boundaries_ex] i
    snd_fetch_country_boundaries_ex
  show ?thesis unfolding list_all_iff by blast
qed

subsection \<open>The rows of the spatial filter\<close>

lemma filter_fire_data_rows:
  assumes "sjoin_check (columns fire) (columns countries) = None"
  shows "\<exists>out. snd (filter_fire_data fire countries :: ('s, point gdf) io) = Inr out \<and>
           columns out = left_labels (columns fire) (columns countries)
                         @ right_labels (columns fire) (columns countries) \<and>
           crs out = crs fire \<and>
           rows out = concat (map (\<lambda>l. map (\<lambda>r. \<lparr>idx = idx l,
                    cells = cells_without [''index_right'']
                              (left_labels (columns fire) (columns countries) @ [''index_right'']
                               @ right_labels (columns fire) (columns countries))
                              (cells l @ [Num (Fin (real (idx r)))] @ cells r),
                    geom = geom l\<rparr>)
                  (filter (\<lambda>r. holds Within (geom l) (geom r)) (rows countries))) (rows fire))"
  using assms by (simp add: snd_filter_fire_data)

lemma filter_fire_data_Inr:
  assumes "snd (filter_fire_data fire countries :: ('s, point gdf) io) = Inr out"
  shows "sjoin_check (columns fire) (columns countries) = None"
  using assms by (simp add: snd_filter_fire_data split: option.splits)




subsection \<open>Which fire records the filter keeps, and how often\<close>



lemma sjoin_check_ex: "sjoin_check (columns ex_fire_gdf) (columns ex_countries) = None"
  by (simp add: sjoin_check_def ex_fire_gdf_def ex_countries_def left_labels_def right_labels_def
      rename_overlap_def new_dups_def duplicated_def)




subsection \<open>The scenario with 100 fire points\<close>








subsubsection \<open>The scenario on the example countries\<close>



















subsection \<open>The columns of the spatial filter\<close>

lemma wf_frame_cells:
  assumes "wf_frame df" "r \<in> set (rows df)"
  shows "length (cells r) = length (columns df)"
  using assms by (simp add: wf_frame_def list_all_iff)

lemma joined_rows_member:
  fixes fire :: "point gdf" and countries :: "region gdf"
  assumes "r \<in> set (concat (map (\<lambda>l. map (\<lambda>c. \<lparr>idx = idx l, cells = cells l @ cells c,
                                                   geom = geom l\<rparr>)
                  (filter (\<lambda>c. holds Within (geom l) (geom c)) (rows countries))) (rows fire)))"
  obtains l c where "l \<in> set (rows fire)" "c \<in> set (rows countries)"
    "holds Within (geom l) (geom c)"
    "idx r = idx l" "geom r = geom l" "cells r = cells l @ cells c"
proof -
  from assms obtain l c where "l \<in> set (rows fire)" "c \<in> set (rows countries)"
    "holds Within (geom l) (geom c)"
    "r = \<lparr>idx = idx l, cells = cells l @ cells c, geom = geom l\<rparr>"
    by (auto simp only: set_concat set_map set_filter)
  then show ?thesis using that by (metis row.select_convs)
qed

lemma filter_fire_data_cells:
  assumes chk: "sjoin_check (columns fire) (columns countries) = None"
    and wf: "wf_frame fire" "wf_frame countries"
  shows "\<exists>out. snd (filter_fire_data fire countries :: ('s, point gdf) io) = Inr out \<and>
           columns out = left_labels (columns fire) (columns countries)
                         @ right_labels (columns fire) (columns countries) \<and>
           rows out = concat (map (\<lambda>l. map (\<lambda>c. \<lparr>idx = idx l, cells = cells l @ cells c,
                                                   geom = geom l\<rparr>)
                  (filter (\<lambda>c. holds Within (geom l) (geom c)) (rows countries))) (rows fire))"
proof -
  let ?cols = "left_labels (columns fire) (columns countries) @ [''index_right'']
               @ right_labels (columns fire) (columns countries)"
  from filter_fire_data_rows [OF chk, where ?'s = 's] obtain out where
    out: "snd (filter_fire_data fire countries :: ('s, point gdf) io) = Inr out"
    and cols: "columns out = left_labels (columns fire) (columns countries)
                         @ right_labels (columns fire) (columns countries)"
    and rws: "rows out = concat (map (\<lambda>l. map (\<lambda>r. \<lparr>idx = idx l,
                    cells = cells_without [''index_right''] ?cols
                              (cells l @ [Num (Fin (real (idx r)))] @ cells r),
                    geom = geom l\<rparr>)
                  (filter (\<lambda>r. holds Within (geom l) (geom r)) (rows countries))) (rows fire))"
    by blast
  have eq: "cells_without [''index_right''] ?cols (cells l @ [Num (Fin (real (idx c)))] @ cells c)
              = cells l @ cells c"
    if "l \<in> set (rows fire)" "c \<in> set (rows countries)" for l c
    using chk wf_frame_cells [OF wf(1) that(1)] wf_frame_cells [OF wf(2) that(2)]
    by (rule cells_without_joined)
  then have eq': "cells_without [''index_right'']
                    (left_labels (columns fire) (columns countries) @ ''index_right''
                     # right_labels (columns fire) (columns countries))
                    (cells l @ Num (Fin (real (idx c))) # cells c)
              = cells l @ cells c"
    if "l \<in> set (rows fire)" "c \<in> set (rows countries)" for l c
    using that by simp
  have "rows out = concat (map (\<lambda>l. map (\<lambda>c. \<lparr>idx = idx l, cells = cells l @ cells c,
                                                   geom = geom l\<rparr>)
                  (filter (\<lambda>c. holds Within (geom l) (geom c)) (rows countries))) (rows fire))"
    unfolding rws
    by (intro arg_cong [where f = concat] map_cong refl) (simp add: eq')
  with out cols show ?thesis by blast
qed

text \<open>
  C8, as the code has it. For rectangular frames whose labels can be joined, the filter
  returns a frame without a column \<^verbatim>\<open>index_right\<close>. Its first columns are the columns of the
  fire feed, in their order: a column keeps its label unless the boundary frame has a column
  of the same label, in which case the label gets the suffix \<^verbatim>\<open>_left\<close>. Every row of the
  result has, in these columns, the cells of one fire record unchanged, together with that
  record's index label and point.
\<close>

theorem filter_fire_data_columns:
  assumes "sjoin_check (columns fire) (columns countries) = None"
    and "wf_frame fire" and "wf_frame countries"
  shows "\<exists>out. snd (filter_fire_data fire countries :: ('s, point gdf) io) = Inr out \<and>
           ''index_right'' \<notin> set (columns out) \<and>
           (\<forall>k < length (columns fire).
              columns out ! k = (if columns fire ! k \<in> set (columns countries)
                                 then columns fire ! k @ ''_left'' else columns fire ! k)) \<and>
           (\<forall>r \<in> set (rows out). \<exists>l \<in> set (rows fire).
              idx r = idx l \<and> geom r = geom l \<and> take (length (columns fire)) (cells r) = cells l)"
proof -
  let ?ll = "left_labels (columns fire) (columns countries)"
  let ?rl = "right_labels (columns fire) (columns countries)"
  from filter_fire_data_cells [OF assms, where ?'s = 's] obtain out where
    out: "snd (filter_fire_data fire countries :: ('s, point gdf) io) = Inr out"
    and cols: "columns out = ?ll @ ?rl"
    and rws: "rows out = concat (map (\<lambda>l. map (\<lambda>c. \<lparr>idx = idx l, cells = cells l @ cells c,
                                                   geom = geom l\<rparr>)
                  (filter (\<lambda>c. holds Within (geom l) (geom c)) (rows countries))) (rows fire))"
    by blast
  have 1: "''index_right'' \<notin> set (columns out)"
    using sjoin_check_left_labels [OF assms(1)] sjoin_check_right_labels [OF assms(1)]
    by (simp add: cols)
  have 2: "\<forall>k < length (columns fire).
              columns out ! k = (if columns fire ! k \<in> set (columns countries)
                                 then columns fire ! k @ ''_left'' else columns fire ! k)"
    by (simp add: cols nth_append left_labels_nth)
  have 3: "\<exists>l \<in> set (rows fire).
              idx r = idx l \<and> geom r = geom l \<and> take (length (columns fire)) (cells r) = cells l"
    if "r \<in> set (rows out)" for r
  proof -
    from that obtain l c where l: "l \<in> set (rows fire)" and "c \<in> set (rows countries)"
      and r: "idx r = idx l" "geom r = geom l" "cells r = cells l @ cells c"
      unfolding rws by (rule joined_rows_member)
    have "take (length (columns fire)) (cells r) = cells l"
      using wf_frame_cells [OF assms(2) l] by (simp add: r)
    with l r show ?thesis by blast
  qed
  from out 1 2 3 show ?thesis by blast
qed

lemma wf_ex: "wf_frame ex_fire_gdf" "wf_frame ex_countries"
  by (simp_all add: wf_frame_def ex_fire_gdf_def ex_countries_def fire_row_def country_row_def)

text \<open>
  The example feed has no label in common with the example countries: its three columns
  keep their labels.
\<close>

theorem filter_fire_data_columns_witness:
  "sjoin_check (columns ex_fire_gdf) (columns ex_countries) = None \<and>
   wf_frame ex_fire_gdf \<and> wf_frame ex_countries \<and>
   (\<exists>out. snd (filter_fire_data ex_fire_gdf ex_countries :: (point gdf, point gdf) io) = Inr out \<and>
      ''index_right'' \<notin> set (columns out) \<and>
      columns out ! 0 = ''latitude'' \<and> columns out ! 1 = ''longitude'' \<and>
      columns out ! 2 = ''brightness'')"
proof -
  from filter_fire_data_columns [OF sjoin_check_ex wf_ex, where ?'s = "point gdf"]
  obtain out where
    out: "snd (filter_fire_data ex_fire_gdf ex_countries :: (point gdf, point gdf) io) = Inr out"
    and ir: "''index_right'' \<notin> set (columns out)"
    and lab: "\<forall>k < length (columns ex_fire_gdf).
              columns out ! k = (if columns ex_fire_gdf ! k \<in> set (columns ex_countries)
                                 then columns ex_fire_gdf ! k @ ''_left'' else columns ex_fire_gdf ! k)"
    by blast
  have "columns out ! 0 = ''latitude''" "columns out ! 1 = ''longitude''"
    "columns out ! 2 = ''brightness''"
    using lab by (simp_all add: ex_fire_gdf_def ex_countries_def)
  with out ir sjoin_check_ex wf_ex show ?thesis by blast
qed

lemma sjoin_check_c8: "sjoin_check (columns c8_fire) (columns ex_countries) = None"
  by (simp add: sjoin_check_def c8_fire_def ex_countries_def left_labels_def right_labels_def
      rename_overlap_def new_dups_def duplicated_def)

text \<open>
  A feed with a column \<^verbatim>\<open>FID\<close> against the example countries, which have a column
  \<^verbatim>\<open>FID\<close> too: the result has no column \<^verbatim>\<open>FID\<close>, the feed's column is now \<^verbatim>\<open>FID_left\<close>.
  So a retained record does not keep all its columns as they were.
\<close>

theorem filter_fire_data_renames:
  "columns c8_fire = [''FID'', ''latitude'', ''longitude''] \<and>
   column_labels (snd (filter_fire_data c8_fire ex_countries :: (point gdf, point gdf) io))
     = Inr [''FID_left'', ''latitude'', ''longitude'', ''FID_right'', ''COUNTRY'', ''ISO'']"
proof
  show "columns c8_fire = [''FID'', ''latitude'', ''longitude'']" by (simp add: c8_fire_def)
  from filter_fire_data_rows [OF sjoin_check_c8, where ?'s = "point gdf"]
  obtain out where
    out: "snd (filter_fire_data c8_fire ex_countries :: (point gdf, point gdf) io) = Inr out"
    and cols: "columns out = left_labels (columns c8_fire) (columns ex_countries)
                         @ right_labels (columns c8_fire) (columns ex_countries)"
    by blast
  have "columns out = [''FID_left'', ''latitude'', ''longitude'', ''FID_right'', ''COUNTRY'', ''ISO'']"
    unfolding cols
    by (simp add: c8_fire_def ex_countries_def left_labels_def right_labels_def rename_overlap_def)
  with out show "column_labels (snd (filter_fire_data c8_fire ex_countries :: (point gdf, point gdf) io))
     = Inr [''FID_left'', ''latitude'', ''longitude'', ''FID_right'', ''COUNTRY'', ''ISO'']"
    by (simp add: column_labels_def)
qed

subsection \<open>The traces of the stages\<close>

lemma fst_fetch_fire_data:
  "fst (fetch_fire_data env) = [Print ''Fetching fire data...'', ReadCsv FIRE_DATA_URL]"
  by (simp add: fetch_fire_data_def fst_io_bind snd_io_bind split: sum.splits)

lemma fst_fetch_country_boundaries:
  "fst (fetch_country_boundaries env)
     = [Print ''Fetching country boundaries...'', HttpGet COUNTRIES_URL]"
  by (simp add: fetch_country_boundaries_def fst_io_bind snd_io_bind split: sum.splits)

lemma fst_filter_fire_data:
  "fst (filter_fire_data fire countries) = [Print ''Filtering fire data...'']"
  by (simp add: filter_fire_data_def fst_io_bind snd_io_bind split: sum.splits)

text \<open>The portal call that changes the portal, for the items the search returned.\<close>

lemma snd_publish_to_arcgis:
  "snd (publish_to_arcgis env filtered_gdf) =
     (case GIS env PORTAL_URL USERNAME PASSWORD of
        Inl e \<Rightarrow> Inl e
      | Inr gis \<Rightarrow>
          (case from_geodataframe env filtered_gdf of
             Inl e \<Rightarrow> Inl e
           | Inr sdf \<Rightarrow>
               (case content_search env ITEM_TITLE ''Feature Layer'' of
                  Inl e \<Rightarrow> Inl e
                | Inr existing_items \<Rightarrow>
                    (case existing_items of
                       item # rest \<Rightarrow>
                         (case fromitem env item of
                            Inl e \<Rightarrow> Inl e
                          | Inr flc \<Rightarrow>
                              (case manager_overwrite env item sdf of
                                 Inl e \<Rightarrow> Inl e | Inr u \<Rightarrow> Inr ()))
                     | [] \<Rightarrow>
                         (case to_featurelayer env ITEM_TITLE sdf of
                            Inl e \<Rightarrow> Inl e | Inr u \<Rightarrow> Inr ())))))"
  by (auto simp: publish_to_arcgis_def snd_io_bind split: sum.splits list.splits)

lemma fst_publish_to_arcgis:
  "fst (publish_to_arcgis env filtered_gdf) =
     Print ''Publishing to ArcGIS Online...'' # GisConnect PORTAL_URL USERNAME PASSWORD #
     (case GIS env PORTAL_URL USERNAME PASSWORD of
        Inl e \<Rightarrow> []
      | Inr gis \<Rightarrow>
          (case from_geodataframe env filtered_gdf of
             Inl e \<Rightarrow> []
           | Inr sdf \<Rightarrow>
               ContentSearch ITEM_TITLE ''Feature Layer'' #
               (case content_search env ITEM_TITLE ''Feature Layer'' of
                  Inl e \<Rightarrow> []
                | Inr existing_items \<Rightarrow>
                    (case existing_items of
                       item # rest \<Rightarrow>
                         Print ''Updating existing layer...'' #
                         (case fromitem env item of
                            Inl e \<Rightarrow> []
                          | Inr flc \<Rightarrow>
                              Overwrite item sdf #
                              (case manager_overwrite env item sdf of
                                 Inl e \<Rightarrow> [] | Inr u \<Rightarrow> [Print ''Publishing complete!'']))
                     | [] \<Rightarrow>
                         Print ''Creating a new feature layer...'' #
                         ToFeatureLayer ITEM_TITLE sdf #
                         (case to_featurelayer env ITEM_TITLE sdf of
                            Inl e \<Rightarrow> [] | Inr u \<Rightarrow> [Print ''Publishing complete!''])))))"
  by (auto simp: publish_to_arcgis_def fst_io_bind snd_io_bind split: sum.splits list.splits)

lemma snd_try_body:
  "snd (try_body env) =
     (case snd (fetch_fire_data env) of
        Inl e \<Rightarrow> Inl e
      | Inr fire_gdf \<Rightarrow>
          (case snd (fetch_country_boundaries env) of
             Inl e \<Rightarrow> Inl e
           | Inr countries_gdf \<Rightarrow>
               (case snd (filter_fire_data fire_gdf countries_gdf :: ('s, point gdf) io) of
                  Inl e \<Rightarrow> Inl e
                | Inr filtered_gdf \<Rightarrow>
                    (case snd (publish_to_arcgis env filtered_gdf) of
                       Inl e \<Rightarrow> Inl e | Inr u \<Rightarrow> Inr ()))))"
  for env :: "'s env"
  by (simp add: try_body_def snd_io_bind split: sum.splits)

lemma fst_try_body:
  "fst (try_body env) =
     [Print ''Fetching fire data...'', ReadCsv FIRE_DATA_URL] @
     (case snd (fetch_fire_data env) of
        Inl e \<Rightarrow> []
      | Inr fire_gdf \<Rightarrow>
          [Print ''Fetching country boundaries...'', HttpGet COUNTRIES_URL] @
          (case snd (fetch_country_boundaries env) of
             Inl e \<Rightarrow> []
           | Inr countries_gdf \<Rightarrow>
               Print ''Filtering fire data...'' #
               (case snd (filter_fire_data fire_gdf countries_gdf :: ('s, point gdf) io) of
                  Inl e \<Rightarrow> []
                | Inr filtered_gdf \<Rightarrow>
                    Print (''Filtered '' @ str_nat (length (rows filtered_gdf)) @ '' fire records.'') #
                    fst (publish_to_arcgis env filtered_gdf) @
                    (case snd (publish_to_arcgis env filtered_gdf) of
                       Inl e \<Rightarrow> [] | Inr u \<Rightarrow> [Print ''Process completed successfully!'']))))"
  for env :: "'s env"
  by (simp add: try_body_def fst_io_bind snd_io_bind fst_fetch_fire_data
      fst_fetch_country_boundaries fst_filter_fire_data split: sum.splits)

lemma snd_main:
  "snd (main env) =
     (case snd (try_body env) of
        Inl e \<Rightarrow> if is_Exception e then Inr () else Inl e
      | Inr u \<Rightarrow> Inr ())"
  by (cases "try_body env")
    (auto simp: main_def try_except_Exception_def print_def split: sum.splits)

lemma fst_main:
  "fst (main env) =
     fst (try_body env) @
     (case snd (try_body env) of
        Inl e \<Rightarrow> if is_Exception e then [Print (''Error: '' @ str_exn e)] else []
      | Inr u \<Rightarrow> [])"
  by (cases "try_body env")
    (auto simp: main_def try_except_Exception_def print_def split: sum.splits)

subsection \<open>The publisher\<close>

lemma publish_to_arcgis_success:
  assumes "snd (publish_to_arcgis env filtered_gdf) = Inr ()"
  obtains sdf existing_items where
    "GIS env PORTAL_URL USERNAME PASSWORD = Inr ()"
    "from_geodataframe env filtered_gdf = Inr sdf"
    "content_search env ITEM_TITLE ''Feature Layer'' = Inr existing_items"
    "fst (publish_to_arcgis env filtered_gdf) =
       [Print ''Publishing to ArcGIS Online...'', GisConnect PORTAL_URL USERNAME PASSWORD,
        ContentSearch ITEM_TITLE ''Feature Layer''] @
       (case existing_items of
          item # rest \<Rightarrow> [Print ''Updating existing layer...'', Overwrite item sdf]
        | [] \<Rightarrow> [Print ''Creating a new feature layer...'', ToFeatureLayer ITEM_TITLE sdf]) @
       [Print ''Publishing complete!'']"
proof -
  from assms obtain sdf existing_items where
    g: "GIS env PORTAL_URL USERNAME PASSWORD = Inr ()"
    and s: "from_geodataframe env filtered_gdf = Inr sdf"
    and c: "content_search env ITEM_TITLE ''Feature Layer'' = Inr existing_items"
    and m: "(case existing_items of
               item # rest \<Rightarrow> fromitem env item = Inr () \<and> manager_overwrite env item sdf = Inr ()
             | [] \<Rightarrow> to_featurelayer env ITEM_TITLE sdf = Inr ())"
    unfolding snd_publish_to_arcgis
    by (auto split: sum.splits list.splits)
  have "fst (publish_to_arcgis env filtered_gdf) =
       [Print ''Publishing to ArcGIS Online...'', GisConnect PORTAL_URL USERNAME PASSWORD,
        ContentSearch ITEM_TITLE ''Feature Layer''] @
       (case existing_items of
          item # rest \<Rightarrow> [Print ''Updating existing layer...'', Overwrite item sdf]
        | [] \<Rightarrow> [Print ''Creating a new feature layer...'', ToFeatureLayer ITEM_TITLE sdf]) @
       [Print ''Publishing complete!'']"
    using g s c m unfolding fst_publish_to_arcgis
    by (auto split: list.splits)
  with g s c show ?thesis by (rule that)
qed

lemma publish_to_arcgis_total:
  assumes "GIS env PORTAL_URL USERNAME PASSWORD = Inr ()"
    and "from_geodataframe env filtered_gdf = Inr sdf"
    and "content_search env ITEM_TITLE ''Feature Layer'' = Inr existing_items"
    and "(case existing_items of
            item # rest \<Rightarrow> fromitem env item = Inr () \<and> manager_overwrite env item sdf = Inr ()
          | [] \<Rightarrow> to_featurelayer env ITEM_TITLE sdf = Inr ())"
  shows "snd (publish_to_arcgis env filtered_gdf) = Inr ()"
  using assms unfolding snd_publish_to_arcgis by (auto split: list.splits)

lemma mutations_simps [simp]:
  "mutations [] = []"
  "mutations (Print s # t) = mutations t"
  "mutations (ReadCsv u # t) = mutations t"
  "mutations (HttpGet u # t) = mutations t"
  "mutations (GisConnect a b c # t) = mutations t"
  "mutations (ContentSearch q ty # t) = mutations t"
  "mutations (Overwrite i sdf # t) = Overwrite i sdf # mutations t"
  "mutations (ToFeatureLayer ti sdf # t) = ToFeatureLayer ti sdf # mutations t"
  "mutations (t @ t') = mutations t @ mutations t'"
  by (simp_all add: mutations_def)

lemma external_calls_simps [simp]:
  "external_calls [] = []"
  "external_calls (Print s # t) = external_calls t"
  "external_calls (ReadCsv u # t) = ReadCsv u # external_calls t"
  "external_calls (HttpGet u # t) = HttpGet u # external_calls t"
  "external_calls (GisConnect a b c # t) = GisConnect a b c # external_calls t"
  "external_calls (ContentSearch q ty # t) = ContentSearch q ty # external_calls t"
  "external_calls (Overwrite i sdf # t) = Overwrite i sdf # external_calls t"
  "external_calls (ToFeatureLayer ti sdf # t) = ToFeatureLayer ti sdf # external_calls t"
  "external_calls (t @ t') = external_calls t @ external_calls t'"
  by (simp_all add: external_calls_def)

lemma portal_calls_simps [simp]:
  "portal_calls [] = []"
  "portal_calls (Print s # t) = portal_calls t"
  "portal_calls (ReadCsv u # t) = portal_calls t"
  "portal_calls (HttpGet u # t) = portal_calls t"
  "portal_calls (GisConnect a b c # t) = GisConnect a b c # portal_calls t"
  "portal_calls (ContentSearch q ty # t) = ContentSearch q ty # portal_calls t"
  "portal_calls (Overwrite i sdf # t) = Overwrite i sdf # portal_calls t"
  "portal_calls (ToFeatureLayer ti sdf # t) = ToFeatureLayer ti sdf # portal_calls t"
  "portal_calls (t @ t') = portal_calls t @ portal_calls t'"
  by (simp_all add: portal_calls_def)

lemma try_body_success:
  fixes env :: "'s env"
  assumes "snd (try_body env) = Inr ()"
  obtains fire_gdf countries_gdf filtered_gdf where
    "snd (fetch_fire_data env) = Inr fire_gdf"
    "snd (fetch_country_boundaries env) = Inr countries_gdf"
    "snd (filter_fire_data fire_gdf countries_gdf :: ('s, point gdf) io) = Inr filtered_gdf"
    "snd (publish_to_arcgis env filtered_gdf) = Inr ()"
    "fst (main env) =
       [Print ''Fetching fire data...'', ReadCsv FIRE_DATA_URL,
        Print ''Fetching country boundaries...'', HttpGet COUNTRIES_URL,
        Print ''Filtering fire data...'',
        Print (''Filtered '' @ str_nat (length (rows filtered_gdf)) @ '' fire records.'')] @
       fst (publish_to_arcgis env filtered_gdf) @ [Print ''Process completed successfully!'']"
proof -
  from assms obtain fire_gdf countries_gdf filtered_gdf where
    1: "snd (fetch_fire_data env) = Inr fire_gdf"
    and 2: "snd (fetch_country_boundaries env) = Inr countries_gdf"
    and 3: "snd (filter_fire_data fire_gdf countries_gdf :: ('s, point gdf) io) = Inr filtered_gdf"
    and 4: "snd (publish_to_arcgis env filtered_gdf) = Inr ()"
    unfolding snd_try_body by (auto split: sum.splits)
  have "fst (main env) =
       [Print ''Fetching fire data...'', ReadCsv FIRE_DATA_URL,
        Print ''Fetching country boundaries...'', HttpGet COUNTRIES_URL,
        Print ''Filtering fire data...'',
        Print (''Filtered '' @ str_nat (length (rows filtered_gdf)) @ '' fire records.'')] @
       fst (publish_to_arcgis env filtered_gdf) @ [Print ''Process completed successfully!'']"
    using assms 1 2 3 4 by (simp add: fst_main fst_try_body)
  with 1 2 3 4 show ?thesis by (rule that)
qed


subsubsection \<open>The publisher on the example portals\<close>




lemma try_body_total:
  fixes env :: "'s env"
  assumes "snd (fetch_fire_data env) = Inr fire_gdf"
    and "snd (fetch_country_boundaries env) = Inr countries_gdf"
    and "snd (filter_fire_data fire_gdf countries_gdf :: ('s, point gdf) io) = Inr filtered_gdf"
    and "snd (publish_to_arcgis env filtered_gdf) = Inr ()"
  shows "snd (try_body env) = Inr ()"
  using assms by (simp add: snd_try_body)




subsection \<open>What a run shows outside\<close>

lemma printed_append: "printed (t @ t') = printed t @ printed t'"
  by (induction t rule: printed.induct) simp_all

lemma run_script_eq:
  "run_script m =
     (case snd m of
        Inl e \<Rightarrow> \<lparr>stdout = printed (fst m),
                   stderr = [''Traceback (most recent call last): '' @ str_exn e], exit_code = 1\<rparr>
      | Inr u \<Rightarrow> \<lparr>stdout = printed (fst m), stderr = [], exit_code = 0\<rparr>)"
  by (cases m) (simp add: run_script_def split: sum.splits)

lemma run_script_main_caught:
  assumes "snd (try_body env) = Inl e" "is_Exception e"
  shows "run_script (main env) =
           \<lparr>stdout = printed (fst (try_body env)) @ [''Error: '' @ str_exn e], stderr = [],
            exit_code = 0\<rparr>"
  using assms by (simp add: run_script_eq snd_main fst_main printed_append)



lemma raise_for_status_error:
  assumes "400 \<le> status_code r" "status_code r < 600"
  shows "\<exists>m. raise_for_status r = Inl (HTTPError m)"
  using assms by (auto simp: raise_for_status_def)




subsection \<open>An error status on the boundary download\<close>

lemma e500_env_simps:
  "read_csv e500_env u = Inr ex_fire_df"
  "requests_get e500_env u =
     Inr \<lparr>status_code = 500, reason = ''Internal Server Error'', url = u, body_text = []\<rparr>"
  by (simp_all add: e500_env_def ex_env_def)

lemma c6_env_simps:
  "read_csv c6_env u = Inr ex_fire_df"
  "requests_get c6_env u =
     Inr \<lparr>status_code = 300, reason = ''Multiple Choices'', url = u, body_text = ''{}''\<rparr>"
  "read_file c6_env t = Inr ex_world"
  "GIS c6_env a b c = Inr ()"
  "from_geodataframe c6_env df = Inr df"
  "content_search c6_env q ty = Inr []"
  "to_featurelayer c6_env ti s = Inr ()"
  by (simp_all add: c6_env_def ex_env_def)

text \<open>
  C6, as the code has it. When the boundary download is answered with a status from 400 to
  599, \<^verbatim>\<open>raise_for_status\<close> raises an \<^verbatim>\<open>HTTPError\<close> out of the boundary fetcher. The run
  then makes no call to the portal at all, so nothing on the portal changes; when the fire
  feed had been fetched, the run ends with the error: it prints the two progress lines and
  the line \<^verbatim>\<open>Error:\<close> with the message of the \<^verbatim>\<open>HTTPError\<close>.
\<close>

theorem boundary_http_error_aborts:
  fixes env :: "'s env"
  assumes "requests_get env COUNTRIES_URL = Inr response"
    and "400 \<le> status_code response" and "status_code response < 600"
  shows "(\<exists>m. snd (fetch_country_boundaries env) = Inl (HTTPError m)) \<and>
         portal_calls (fst (main env)) = [] \<and>
         mutations (fst (main env)) = [] \<and>
         (\<forall>fire_gdf. snd (fetch_fire_data env) = Inr fire_gdf \<longrightarrow>
            (\<exists>m. snd (try_body env) = Inl (HTTPError m) \<and>
                 run_script (main env) =
                   \<lparr>stdout = [''Fetching fire data...'', ''Fetching country boundaries...'',
                              ''Error: '' @ m],
                    stderr = [], exit_code = 0\<rparr>))"
proof -
  from raise_for_status_error [OF assms(2,3)] obtain m where
    m: "raise_for_status response = Inl (HTTPError m)" by blast
  have b: "snd (fetch_country_boundaries env) = Inl (HTTPError m)"
    using assms(1) m by (simp add: snd_fetch_country_boundaries)
  have p: "portal_calls (fst (main env)) = []" and mu: "mutations (fst (main env)) = []"
    using b by (auto simp: fst_main fst_try_body snd_try_body split: sum.splits)
  have r: "\<exists>m. snd (try_body env) = Inl (HTTPError m) \<and>
                 run_script (main env) =
                   \<lparr>stdout = [''Fetching fire data...'', ''Fetching country boundaries...'',
                              ''Error: '' @ m],
                    stderr = [], exit_code = 0\<rparr>"
    if f: "snd (fetch_fire_data env) = Inr fire_gdf" for fire_gdf
  proof -
    have t: "snd (try_body env) = Inl (HTTPError m)" using f b by (simp add: snd_try_body)
    have "fst (try_body env) = [Print ''Fetching fire data...'', ReadCsv FIRE_DATA_URL,
                                Print ''Fetching country boundaries...'', HttpGet COUNTRIES_URL]"
      using f b by (simp add: fst_try_body)
    with run_script_main_caught [OF t] have "run_script (main env) =
                   \<lparr>stdout = [''Fetching fire data...'', ''Fetching country boundaries...'',
                              ''Error: '' @ m],
                    stderr = [], exit_code = 0\<rparr>"
      by simp
    with t show ?thesis by blast
  qed
  from b p mu r show ?thesis by blast
qed

text \<open>The download answered with status 500: no portal call, and the run ends normally.\<close>

theorem boundary_http_error_aborts_witness:
  "requests_get e500_env COUNTRIES_URL =
     Inr \<lparr>status_code = 500, reason = ''Internal Server Error'', url = COUNTRIES_URL,
          body_text = []\<rparr> \<and>
   (\<exists>m. snd (fetch_country_boundaries e500_env) = Inl (HTTPError m)) \<and>
   portal_calls (fst (main e500_env)) = [] \<and>
   mutations (fst (main e500_env)) = [] \<and>
   exit_code (run_script (main e500_env)) = 0"
proof -
  have s: "400 \<le> status_code \<lparr>status_code = 500, reason = ''Internal Server Error'',
                                 url = COUNTRIES_URL, body_text = []\<rparr>"
    "status_code \<lparr>status_code = 500, reason = ''Internal Server Error'',
                  url = COUNTRIES_URL, body_text = []\<rparr> < 600"
    by simp_all
  note th = boundary_http_error_aborts [OF e500_env_simps(2) [of COUNTRIES_URL] s]
  have f: "snd (fetch_fire_data e500_env) = Inr ex_fire_gdf"
    by (simp add: snd_fetch_fire_data e500_env_simps ex_fire_df_def ex_fire_gdf_def feed_row_def
      fire_row_def row_point_def row_get_def cell_of_def GeoDataFrame_def cells_without_def)
  from th f obtain m where "run_script (main e500_env) =
                   \<lparr>stdout = [''Fetching fire data...'', ''Fetching country boundaries...'',
                              ''Error: '' @ m],
                    stderr = [], exit_code = 0\<rparr>"
    by blast
  then have "exit_code (run_script (main e500_env)) = 0" by simp
  with th e500_env_simps(2) show ?thesis by blast
qed

lemma fetch_c6:
  "snd (fetch_fire_data c6_env) = Inr ex_fire_gdf"
  "snd (fetch_country_boundaries c6_env) = Inr ex_countries"
  by (simp_all add: snd_fetch_fire_data snd_fetch_country_boundaries c6_env_simps
      raise_for_status_ok ex_fire_df_def ex_fire_gdf_def feed_row_def
      fire_row_def row_point_def row_get_def cell_of_def GeoDataFrame_def cells_without_def
      ex_world_def ex_countries_def isin_keep country_row_def)

lemma publish_c6: "snd (publish_to_arcgis c6_env df) = Inr ()"
  by (rule publish_to_arcgis_total [where sdf = df and existing_items = "[]"])
    (simp_all add: c6_env_simps)

lemma try_body_c6: "snd (try_body c6_env) = Inr ()"
proof -
  from filter_fire_data_rows [OF sjoin_check_ex, where ?'s = "point gdf"] obtain out where
    "snd (filter_fire_data ex_fire_gdf ex_countries :: (point gdf, point gdf) io) = Inr out"
    by blast
  with fetch_c6 show ?thesis
    using publish_c6 by (rule try_body_total)
qed

text \<open>
  A download answered with status 300, which is not a success status, and a body that
  parses: the status check lets it pass, the boundary fetcher returns the three countries,
  and the run goes on to publish.
\<close>

theorem boundary_status_300_passes:
  "requests_get c6_env COUNTRIES_URL =
     Inr \<lparr>status_code = 300, reason = ''Multiple Choices'', url = COUNTRIES_URL,
          body_text = ''{}''\<rparr> \<and>
   snd (fetch_country_boundaries c6_env) = Inr ex_countries \<and>
   snd (try_body c6_env) = Inr () \<and>
   length (mutations (fst (main c6_env))) = 1"
proof -
  from try_body_c6 obtain filtered where
    p: "snd (publish_to_arcgis c6_env filtered) = Inr ()"
    and t: "fst (main c6_env) =
       [Print ''Fetching fire data...'', ReadCsv FIRE_DATA_URL,
        Print ''Fetching country boundaries...'', HttpGet COUNTRIES_URL,
        Print ''Filtering fire data...'',
        Print (''Filtered '' @ str_nat (length (rows filtered)) @ '' fire records.'')] @
       fst (publish_to_arcgis c6_env filtered) @ [Print ''Process completed successfully!'']"
    by (rule try_body_success)
  from p obtain sdf existing_items where
    "fst (publish_to_arcgis c6_env filtered) =
       [Print ''Publishing to ArcGIS Online...'', GisConnect PORTAL_URL USERNAME PASSWORD,
        ContentSearch ITEM_TITLE ''Feature Layer''] @
       (case existing_items of
          item # rest \<Rightarrow> [Print ''Updating existing layer...'', Overwrite item sdf]
        | [] \<Rightarrow> [Print ''Creating a new feature layer...'', ToFeatureLayer ITEM_TITLE sdf]) @
       [Print ''Publishing complete!'']"
    by (rule publish_to_arcgis_success)
  then have "length (mutations (fst (main c6_env))) = 1"
    unfolding t by (simp split: list.splits)
  with c6_env_simps(2) fetch_c6(2) try_body_c6 show ?thesis by blast
qed

subsection \<open>The handler of the main block\<close>



subsection \<open>No boundary record on the allow-list\<close>









subsection \<open>The boundary attributes in the result\<close>



end
